theory Spec2Isabelle
  imports Main
begin

section \<open>goshare: the interactive shell and its IPFS connector\<close>

text \<open>
  The repository has two Go files: the package \<open>ipfs\<close> (ipfs_connector.go), which opens
  a node of the storage engine and adds and gets files through it, and the package
  \<open>main\<close>, a command-pattern shell reading lines from standard input.

  Go strings are byte strings: \<open>string\<close> (a list of 8-bit \<open>char\<close>s) here. A Go
  \<open>error\<close> is modelled by its message; \<open>fmt.Errorf("...: %s", err)\<close> is then the
  concatenation of the prefix and the message. A result \<open>(v, err)\<close> of which the code
  reads \<open>v\<close> only when \<open>err\<close> is nil is a sum (\<open>Inl\<close> the error); a bare \<open>error\<close>
  result is an \<open>err option\<close>, \<open>None\<close> for nil.
  The \<open>context.Context\<close> that every call passes on is only handed to the engine and
  is left out.
\<close>

subsection \<open>The storage engine and the libraries, as the answers they give\<close>

type_synonym err = string

type_synonym PluginLoader = nat
type_synonym Config = nat
type_synonym Repo = nat
type_synonym IpfsNode = nat
type_synonym CoreAPI = nat
type_synonym FileInfo = nat
type_synonym files_Node = nat

text \<open>go-cid's \<open>Cid\<close> is a struct of one string; \<open>cid.Undef\<close> is the empty one.\<close>

datatype Cid = Cid string

definition cid_Undef :: Cid where
  "cid_Undef = Cid []"

text \<open>boxo's \<open>path.FromCid\<close> wraps an identifier into an immutable path.\<close>

datatype ImmutablePath = path_FromCid Cid

fun RootCid :: "ImmutablePath \<Rightarrow> Cid" where
  "RootCid (path_FromCid c) = c"

text \<open>
  Every call that leaves the repository (kubo, boxo, go-cid, the operating system) is a
  field of \<open>engine\<close>: what that call answers, as a function of its arguments. The shell
  is run against one \<open>engine\<close> per input line, so the outside world may answer
  differently from one line to the next.
\<close>

record engine =
  loader_NewPluginLoader :: "string \<Rightarrow> err + PluginLoader"
  plugins_Initialize :: "PluginLoader \<Rightarrow> err option"
  plugins_Inject :: "PluginLoader \<Rightarrow> err option"
  os_Mkdir :: "string \<Rightarrow> err option"
  os_IsExist :: "err \<Rightarrow> bool"
  config_Init :: "err + Config"
  fsrepo_Init :: "string \<Rightarrow> Config \<Rightarrow> err option"
  fsrepo_Open :: "string \<Rightarrow> err + Repo"
  core_NewNode :: "Repo \<Rightarrow> err + IpfsNode"
  coreapi_NewCoreAPI :: "IpfsNode \<Rightarrow> err + CoreAPI"
  os_Stat :: "string \<Rightarrow> err + FileInfo"
  files_NewSerialFile :: "string \<Rightarrow> FileInfo \<Rightarrow> err + files_Node"
  Unixfs_Add :: "CoreAPI \<Rightarrow> files_Node \<Rightarrow> err + ImmutablePath"
  cid_Decode :: "string \<Rightarrow> Cid \<times> err option"
  cid_String :: "Cid \<Rightarrow> string"
  Unixfs_Get :: "CoreAPI \<Rightarrow> ImmutablePath \<Rightarrow> err + files_Node"
  files_WriteTo :: "files_Node \<Rightarrow> string \<Rightarrow> err option"

text \<open>
  What the program writes: plain text on standard output (\<open>fmt.Print\<close>,
  \<open>fmt.Println\<close>, \<open>fmt.Printf\<close>, with the text as formatted) and the coloured
  lines of \<open>color.Red\<close> and \<open>color.Green\<close> (with the text as formatted, before the
  colour library ends the line).
\<close>

datatype printed = Print string | Red string | Green string

definition newline :: string where
  "newline = [CHR 0x0A]"

subsection \<open>Package ipfs\<close>

record Connector =
  Api :: CoreAPI
  Node :: IpfsNode
  RepoPath :: string

text \<open>
  \<open>filepath.Join\<close> of two elements: empty elements are ignored, the others are joined
  by the separator. (The cleaning of the joined path is not modelled; the only call
  joins \<open>""\<close> and \<open>"plugins"\<close>, which is clean.)
\<close>

definition filepath_Join :: "string \<Rightarrow> string \<Rightarrow> string" where
  "filepath_Join a b = (if a = [] then b else if b = [] then a else a @ ''/'' @ b)"

definition loadAndInjectPlugins :: "engine \<Rightarrow> string \<Rightarrow> err option" where
  "loadAndInjectPlugins eng externalPluginsPath =
     (case loader_NewPluginLoader eng (filepath_Join externalPluginsPath ''plugins'') of
        Inl e \<Rightarrow> Some (''error loading plugins: '' @ e)
      | Inr plugins \<Rightarrow>
          (case plugins_Initialize eng plugins of
             Some e \<Rightarrow> Some (''error initializing plugins: '' @ e)
           | None \<Rightarrow>
               (case plugins_Inject eng plugins of
                  Some e \<Rightarrow> Some (''error initializing plugins: '' @ e)
                | None \<Rightarrow> None)))"

text \<open>
  \<open>loadPluginsOnce\<close> is a package-level \<open>sync.Once\<close>: a flag that \<open>Do\<close> sets the
  first time it is called, whatever the function it runs does. \<open>setupPlugins\<close> takes
  the flag and returns it with its result. \<open>onceErr\<close> is a fresh nil at every call, so
  a call that finds the flag set returns nil.
\<close>

definition setupPlugins :: "engine \<Rightarrow> bool \<Rightarrow> err option \<times> bool" where
  "setupPlugins eng loadPluginsOnce =
     (let onceErr = (if loadPluginsOnce then None else loadAndInjectPlugins eng [])
      in (case onceErr of Some e \<Rightarrow> (Some e, True) | None \<Rightarrow> (None, True)))"

definition initRepository :: "engine \<Rightarrow> string \<Rightarrow> err option" where
  "initRepository eng repository =
     (case (case os_Mkdir eng repository of
              Some e \<Rightarrow> if \<not> os_IsExist eng e
                        then Some (''failed to create/get repo dir: '' @ e) else None
            | None \<Rightarrow> None) of
        Some e \<Rightarrow> Some e
      | None \<Rightarrow>
          (case config_Init eng of
             Inl e \<Rightarrow> Some e
           | Inr cfg \<Rightarrow>
               (case fsrepo_Init eng repository cfg of
                  Some e \<Rightarrow> Some (''failed to init ephemeral node: '' @ e)
                | None \<Rightarrow> None)))"

definition buildNode :: "engine \<Rightarrow> string \<Rightarrow> err + IpfsNode" where
  "buildNode eng repository =
     (case fsrepo_Open eng repository of
        Inl e \<Rightarrow> Inl e
      | Inr repo \<Rightarrow> core_NewNode eng repo)"

definition CreateNode :: "engine \<Rightarrow> string \<Rightarrow> bool \<Rightarrow> (err + Connector) \<times> bool" where
  "CreateNode eng repository loadPluginsOnce =
     (case setupPlugins eng loadPluginsOnce of
        (Some e, once) \<Rightarrow> (Inl e, once)
      | (None, once) \<Rightarrow>
          (case initRepository eng repository of
             Some e \<Rightarrow> (Inl e, once)
           | None \<Rightarrow>
               (case buildNode eng repository of
                  Inl e \<Rightarrow> (Inl e, once)
                | Inr node \<Rightarrow>
                    (case coreapi_NewCoreAPI eng node of
                       Inl e \<Rightarrow> (Inl (''failed to create ipfs api: '' @ e), once)
                     | Inr api \<Rightarrow>
                         (Inr \<lparr>Api = api, Node = node, RepoPath = repository\<rparr>, once)))))"

definition getFsFile :: "engine \<Rightarrow> string \<Rightarrow> err + files_Node" where
  "getFsFile eng path =
     (case os_Stat eng path of
        Inl e \<Rightarrow> Inl e
      | Inr st \<Rightarrow>
          (case files_NewSerialFile eng path st of
             Inl e \<Rightarrow> Inl e
           | Inr f \<Rightarrow> Inr f))"

text \<open>\<open>AddFile\<close> and \<open>GetFile\<close> return their error and what they printed.\<close>

definition AddFile :: "engine \<Rightarrow> Connector \<Rightarrow> string \<Rightarrow> err option \<times> printed list" where
  "AddFile eng c filePath =
     (case getFsFile eng filePath of
        Inl e \<Rightarrow> (Some (''failed to load file: '' @ e), [])
      | Inr file \<Rightarrow>
          (case Unixfs_Add eng (Api c) file of
             Inl e \<Rightarrow> (Some (''failed to add file: '' @ e), [])
           | Inr fileCid \<Rightarrow>
               (None, [Green (''Added file with Cid: '' @ cid_String eng (RootCid fileCid)
                              @ newline)])))"

text \<open>
  \<open>GetFile\<close> keeps the identifier that \<open>cid.Decode\<close> returns and assigns its error to
  the blank identifier.
\<close>

definition GetFile :: "engine \<Rightarrow> Connector \<Rightarrow> string \<Rightarrow> string \<Rightarrow> err option \<times> printed list" where
  "GetFile eng c contentId outputPath =
     (let cidFile = fst (cid_Decode eng contentId)
      in (case Unixfs_Get eng (Api c) (path_FromCid cidFile) of
            Inl e \<Rightarrow> (Some e, [])
          | Inr file \<Rightarrow>
              (case files_WriteTo eng file outputPath of
                 Some e \<Rightarrow> (Some e, [])
               | None \<Rightarrow> (None, [Green (''Successfully Wrote file to '' @ outputPath)]))))"

subsection \<open>The library calls of package main\<close>

text \<open>
  \<open>strings.Fields\<close> splits a string around each run of white space, as
  \<open>unicode.IsSpace\<close> defines it, and returns the non-empty pieces. The white-space
  runes are the six ASCII ones and U+0085, U+00A0, U+1680, U+2000 to U+200A, U+2028,
  U+2029, U+202F, U+205F and U+3000, whose UTF-8 encodings are two or three bytes long.
  A white-space encoding begins with a byte that is never a continuation byte, so the
  function can look for these encodings at every byte of the string.
\<close>

definition asciiSpace :: "char list" where
  "asciiSpace = [CHR 0x09, CHR 0x0A, CHR 0x0B, CHR 0x0C, CHR 0x0D, CHR 0x20]"

text \<open>The number of bytes of the white-space rune a string begins with, 0 for none.\<close>

fun spaceWidth :: "string \<Rightarrow> nat" where
  "spaceWidth [] = 0"
| "spaceWidth (c # cs) =
     (if c \<in> set asciiSpace then 1
      else if c = CHR 0xC2 then
        (if take 1 cs = [CHR 0x85] \<or> take 1 cs = [CHR 0xA0] then 2 else 0)
      else if c = CHR 0xE1 then
        (if take 2 cs = [CHR 0x9A, CHR 0x80] then 3 else 0)
      else if c = CHR 0xE2 then
        (if take 1 cs = [CHR 0x80]
            \<and> take 1 (drop 1 cs)
                \<in> set (map (\<lambda>b. [b])
                     [CHR 0x80, CHR 0x81, CHR 0x82, CHR 0x83, CHR 0x84, CHR 0x85,
                      CHR 0x86, CHR 0x87, CHR 0x88, CHR 0x89, CHR 0x8A,
                      CHR 0xA8, CHR 0xA9, CHR 0xAF])
            \<or> take 2 cs = [CHR 0x81, CHR 0x9F] then 3 else 0)
      else if c = CHR 0xE3 then
        (if take 2 cs = [CHR 0x80, CHR 0x80] then 3 else 0)
      else 0)"

text \<open>
  \<open>fieldsFrom skip field s\<close>: \<open>skip\<close> bytes of a white-space rune are still to be
  passed over, \<open>field\<close> is the field read so far, reversed.
\<close>

fun fieldsFrom :: "nat \<Rightarrow> string \<Rightarrow> string \<Rightarrow> string list" where
  "fieldsFrom skip field [] = (if field = [] then [] else [rev field])"
| "fieldsFrom skip field (c # cs) =
     (if 0 < skip then fieldsFrom (skip - 1) field cs
      else if spaceWidth (c # cs) = 0 then fieldsFrom 0 (c # field) cs
      else (if field = [] then [] else [rev field])
           @ fieldsFrom (spaceWidth (c # cs) - 1) [] cs)"

definition Fields :: "string \<Rightarrow> string list" where
  "Fields s = fieldsFrom 0 [] s"

text \<open>
  Indexing a slice panics out of range (\<open>index out of range [i] with length n\<close>); the
  program recovers from no panic, so a panic ends it.
\<close>

datatype panic = IndexOutOfRange nat nat

definition index :: "'a list \<Rightarrow> nat \<Rightarrow> panic + 'a" where
  "index xs i = (if i < length xs then Inr (xs ! i) else Inl (IndexOutOfRange i (length xs)))"

subsection \<open>Package main: the commands and the invoker\<close>

text \<open>
  \<open>main\<close> allocates one \<open>IpfsConnector\<close> and one \<open>Invoker\<close>; every command holds a
  pointer to that one \<open>IpfsConnector\<close>, so a command is its remaining fields and reads
  and writes the connector of the state. The state also has the package-level
  \<open>loadPluginsOnce\<close> of package ipfs and what has been printed so far.
\<close>

record IpfsConnector =
  Connector :: "Connector option"

datatype Command =
  IpfsConfigCommand string \<comment> \<open>\<open>repository\<close>\<close>
| IpfsAddCommand string \<comment> \<open>\<open>filePath\<close>\<close>
| IpfsGetCommand string string \<comment> \<open>\<open>cid\<close>, \<open>outputPath\<close>\<close>

record Invoker =
  command :: "Command option"

record state =
  ipfsConnector :: IpfsConnector
  invoker :: Invoker
  loadPluginsOnce :: bool
  stdout :: "printed list"

definition prints :: "printed list \<Rightarrow> state \<Rightarrow> state" where
  "prints out s = s\<lparr>stdout := stdout s @ out\<rparr>"

definition NotConfigured :: err where
  "NotConfigured = ''run config command first''"

definition NoCommandSet :: err where
  "NoCommandSet = ''command not set''"

fun Execute :: "engine \<Rightarrow> Command \<Rightarrow> state \<Rightarrow> err option \<times> state" where
  "Execute eng (IpfsConfigCommand repository) s =
     (case CreateNode eng repository (loadPluginsOnce s) of
        (Inl e, once) \<Rightarrow> (Some e, s\<lparr>loadPluginsOnce := once\<rparr>)
      | (Inr connector, once) \<Rightarrow>
          (None, s\<lparr>ipfsConnector := (ipfsConnector s)\<lparr>Connector := Some connector\<rparr>,
                   loadPluginsOnce := once\<rparr>))"
| "Execute eng (IpfsAddCommand filePath) s =
     (case Connector (ipfsConnector s) of
        None \<Rightarrow> (Some NotConfigured, s)
      | Some c \<Rightarrow> (case AddFile eng c filePath of (e, out) \<Rightarrow> (e, prints out s)))"
| "Execute eng (IpfsGetCommand cid outputPath) s =
     (case Connector (ipfsConnector s) of
        None \<Rightarrow> (Some NotConfigured, s)
      | Some c \<Rightarrow> (case GetFile eng c cid outputPath of (e, out) \<Rightarrow> (e, prints out s)))"

definition SetCommand :: "Command \<Rightarrow> state \<Rightarrow> state" where
  "SetCommand c s = s\<lparr>invoker := (invoker s)\<lparr>command := Some c\<rparr>\<rparr>"

definition ExecuteCommand :: "engine \<Rightarrow> state \<Rightarrow> err option \<times> state" where
  "ExecuteCommand eng s =
     (case command (invoker s) of
        None \<Rightarrow> (Some NoCommandSet, s)
      | Some c \<Rightarrow> Execute eng c s)"

subsection \<open>Package main: the dispatcher and the loop\<close>

datatype outcome = Panicked panic state | Returned "err option" state

definition returned :: "err option \<times> state \<Rightarrow> outcome" where
  "returned r = Returned (fst r) (snd r)"

text \<open>
  \<open>handleIpfsCommand\<close>: the fields of a composite literal are evaluated in order, before
  \<open>SetCommand\<close> is called, so an index out of range panics with the state as it was.
\<close>

definition handleIpfsCommand :: "engine \<Rightarrow> string \<Rightarrow> state \<Rightarrow> outcome" where
  "handleIpfsCommand eng line s =
     (let ipfsCommand = Fields line in
      case index ipfsCommand 0 of
        Inl p \<Rightarrow> Panicked p s
      | Inr verb \<Rightarrow>
          if verb = ''config'' then
            (case index ipfsCommand 1 of
               Inl p \<Rightarrow> Panicked p s
             | Inr a1 \<Rightarrow> returned (ExecuteCommand eng (SetCommand (IpfsConfigCommand a1) s)))
          else if verb = ''add'' then
            (if Connector (ipfsConnector s) = None then Returned (Some NotConfigured) s
             else case index ipfsCommand 1 of
                    Inl p \<Rightarrow> Panicked p s
                  | Inr a1 \<Rightarrow> returned (ExecuteCommand eng (SetCommand (IpfsAddCommand a1) s)))
          else if verb = ''get'' then
            (if Connector (ipfsConnector s) = None then Returned (Some NotConfigured) s
             else case index ipfsCommand 1 of
                    Inl p \<Rightarrow> Panicked p s
                  | Inr a1 \<Rightarrow>
                      (case index ipfsCommand 2 of
                         Inl p \<Rightarrow> Panicked p s
                       | Inr a2 \<Rightarrow>
                           returned (ExecuteCommand eng (SetCommand (IpfsGetCommand a1 a2) s))))
          else Returned None (prints [Print (''invalid command: '' @ line @ newline)] s))"

text \<open>
  One iteration of the loop of \<open>main\<close>, on the line that \<open>scanner.Text()\<close> returns, and
  the loop on the lines read so far. \<open>os.Exit(0)\<close> and a panic end the process.
\<close>

datatype status = Running | Exited int | Crashed panic

definition help_text :: "printed list" where
  "help_text =
     [Print (''Available commands:'' @ newline),
      Print ('' - config <repository>'' @ newline),
      Print ('' - add <file-path>'' @ newline),
      Print ('' - get <cid> <output-path>'' @ newline),
      Print ('' - exit'' @ newline)]"

definition main_iteration :: "engine \<Rightarrow> string \<Rightarrow> state \<Rightarrow> status \<times> state" where
  "main_iteration eng line s0 =
     (let s = prints [Print ''goshare> ''] s0 in
      if line = ''help'' then (Running, prints help_text s)
      else if line = ''exit'' then
        (Exited 0, prints [Print (''Exiting the app. Goodbye!'' @ newline)] s)
      else
        (case handleIpfsCommand eng line s of
           Panicked p s' \<Rightarrow> (Crashed p, s')
         | Returned None s' \<Rightarrow> (Running, s')
         | Returned (Some e) s' \<Rightarrow> (Running, prints [Red e] s')))"

fun main_loop :: "(engine \<times> string) list \<Rightarrow> state \<Rightarrow> status \<times> state" where
  "main_loop [] s = (Running, s)"
| "main_loop ((eng, line) # rest) s =
     (case main_iteration eng line s of
        (Running, s') \<Rightarrow> main_loop rest s'
      | (Exited n, s') \<Rightarrow> (Exited n, s')
      | (Crashed p, s') \<Rightarrow> (Crashed p, s'))"

definition main_start :: state where
  "main_start =
     \<lparr>ipfsConnector = \<lparr>Connector = None\<rparr>, invoker = \<lparr>command = None\<rparr>,
      loadPluginsOnce = False, stdout = []\<rparr>"

definition isReady :: "state \<Rightarrow> bool" where
  "isReady s = (Connector (ipfsConnector s) \<noteq> None)"

fun outcome_state :: "outcome \<Rightarrow> state" where
  "outcome_state (Panicked p s) = s"
| "outcome_state (Returned e s) = s"

subsection \<open>Sample engines\<close>

text \<open>
  \<open>engine_up\<close> answers every call with success; the others differ from it in one or
  two answers: the repository cannot be opened, the plugin loader cannot be created,
  no identifier can be decoded (and the undefined identifier cannot be resolved).
\<close>

definition engine_up :: engine where
  "engine_up =
     \<lparr>loader_NewPluginLoader = (\<lambda>_. Inr 0), plugins_Initialize = (\<lambda>_. None),
      plugins_Inject = (\<lambda>_. None), os_Mkdir = (\<lambda>_. None), os_IsExist = (\<lambda>_. False),
      config_Init = Inr 0, fsrepo_Init = (\<lambda>_ _. None), fsrepo_Open = (\<lambda>_. Inr 0),
      core_NewNode = (\<lambda>_. Inr 0), coreapi_NewCoreAPI = (\<lambda>_. Inr 0),
      os_Stat = (\<lambda>_. Inr 0), files_NewSerialFile = (\<lambda>_ _. Inr 0),
      Unixfs_Add = (\<lambda>_ _. Inr (path_FromCid (Cid ''QmFile''))),
      cid_Decode = (\<lambda>x. (Cid x, None)), cid_String = (\<lambda>c. case c of Cid x \<Rightarrow> x),
      Unixfs_Get = (\<lambda>_ _. Inr 0), files_WriteTo = (\<lambda>_ _. None)\<rparr>"

definition engine_locked :: engine where
  "engine_locked = engine_up\<lparr>fsrepo_Open := (\<lambda>_. Inl ''lock held'')\<rparr>"

definition engine_no_plugins :: engine where
  "engine_no_plugins = engine_up\<lparr>loader_NewPluginLoader := (\<lambda>_. Inl ''no plugins'')\<rparr>"

definition engine_bad_cid :: engine where
  "engine_bad_cid =
     engine_up\<lparr>cid_Decode := (\<lambda>_. (cid_Undef, Some ''invalid cid'')),
               Unixfs_Get := (\<lambda>_ p. if p = path_FromCid cid_Undef
                                     then Inl ''could not resolve path'' else Inr 0)\<rparr>"

definition ready_start :: state where
  "ready_start =
     main_start\<lparr>ipfsConnector := \<lparr>Connector = Some \<lparr>Api = 0, Node = 0, RepoPath = ''/tmp/repo''\<rparr>\<rparr>,
                loadPluginsOnce := True\<rparr>"

section \<open>Basic facts\<close>

lemma index_Nil [simp]: "index [] i = Inl (IndexOutOfRange i 0)"
  by (simp add: index_def)

lemma index_Cons_0 [simp]: "index (x # xs) 0 = Inr x"
  by (simp add: index_def)

lemma prints_fields [simp]:
  "ipfsConnector (prints out s) = ipfsConnector s"
  "invoker (prints out s) = invoker s"
  "loadPluginsOnce (prints out s) = loadPluginsOnce s"
  "stdout (prints out s) = stdout s @ out"
  by (simp_all add: prints_def)

lemma outcome_state_returned [simp]: "outcome_state (returned r) = snd r"
  by (simp add: returned_def)

subsection \<open>Tokenizing\<close>

lemma Fields_samples:
  "Fields [] = []"
  "Fields ''   '' = []"
  "Fields ''config'' = [''config'']"
  "Fields ''add'' = [''add'']"
  "Fields ''get QmFile'' = [''get'', ''QmFile'']"
  "Fields ''add ./file.txt'' = [''add'', ''./file.txt'']"
  "Fields ''status now'' = [''status'', ''now'']"
  "Fields ''config /tmp/other'' = [''config'', ''/tmp/other'']"
  "Fields ''help'' = [''help'']"
  "Fields ''exit'' = [''exit'']"
  by (simp_all add: Fields_def asciiSpace_def)

text \<open>Multi-byte white space separates fields too; other multi-byte runes do not.\<close>

lemma Fields_unicode_sample:
  "Fields ([CHR 0x09] @ ''a'' @ [CHR 0xC2, CHR 0xA0] @ ''b''
           @ [CHR 0xE2, CHR 0x80, CHR 0x8A, CHR 0xE3, CHR 0x80, CHR 0x80,
              CHR 0xE2, CHR 0x80, CHR 0x8B] @ ''c'' @ [CHR 0xE2, CHR 0x81, CHR 0x9F, CHR 0xC2])
     = [''a'', ''b'', [CHR 0xE2, CHR 0x80, CHR 0x8B, CHR ''c''], [CHR 0xC2]]"
  by (simp add: Fields_def asciiSpace_def)

lemma fieldsFrom_spaces: "set line \<subseteq> set asciiSpace \<Longrightarrow> fieldsFrom 0 [] line = []"
  by (induction line) auto

text \<open>A line of ASCII white space only has no field.\<close>

lemma Fields_spaces: "set line \<subseteq> set asciiSpace \<Longrightarrow> Fields line = []"
  by (simp add: Fields_def fieldsFrom_spaces)

lemma handleIpfsCommand_no_field:
  "Fields line = [] \<Longrightarrow> handleIpfsCommand eng line s = Panicked (IndexOutOfRange 0 0) s"
  by (simp add: handleIpfsCommand_def)

subsection \<open>The sample engines\<close>

lemma CreateNode_locked: "CreateNode engine_locked repo once = (Inl ''lock held'', True)"
  by (simp add: CreateNode_def setupPlugins_def loadAndInjectPlugins_def initRepository_def
      buildNode_def engine_locked_def engine_up_def)

lemma CreateNode_up:
  "CreateNode engine_up repo once = (Inr \<lparr>Api = 0, Node = 0, RepoPath = repo\<rparr>, True)"
  by (simp add: CreateNode_def setupPlugins_def loadAndInjectPlugins_def initRepository_def
      buildNode_def engine_up_def)

lemma load_no_plugins:
  "loadAndInjectPlugins engine_no_plugins [] = Some ''error loading plugins: no plugins''"
  by (simp add: loadAndInjectPlugins_def engine_no_plugins_def engine_up_def)

lemma Execute_config_up:
  "Execute engine_up (IpfsConfigCommand ''/tmp/repo'') main_start = (None, ready_start)"
  by (simp add: CreateNode_up main_start_def ready_start_def)

subsection \<open>Readiness is kept\<close>

lemma isReady_prints [simp]: "isReady (prints out s) = isReady s"
  by (simp add: isReady_def)

lemma isReady_SetCommand [simp]: "isReady (SetCommand c s) = isReady s"
  by (simp add: isReady_def SetCommand_def)

lemma Execute_isReady: "isReady s \<Longrightarrow> isReady (snd (Execute eng c s))"
  by (cases c) (auto simp: isReady_def split: prod.splits sum.splits option.splits)

lemma ExecuteCommand_isReady: "isReady s \<Longrightarrow> isReady (snd (ExecuteCommand eng s))"
  by (simp add: ExecuteCommand_def Execute_isReady split: option.splits)

lemma handleIpfsCommand_isReady:
  "isReady s \<Longrightarrow> isReady (outcome_state (handleIpfsCommand eng line s))"
  by (simp add: handleIpfsCommand_def Let_def ExecuteCommand_isReady split: sum.splits)

lemma main_iteration_isReady:
  "isReady s \<Longrightarrow> isReady (snd (main_iteration eng line s))"
  using handleIpfsCommand_isReady [of "prints [Print ''goshare> ''] s" eng line]
  by (auto simp: main_iteration_def Let_def split: outcome.splits option.splits)

lemma main_loop_isReady:
  "isReady s \<Longrightarrow> isReady (snd (main_loop inputs s))"
proof (induction inputs arbitrary: s)
  case Nil
  then show ?case by simp
next
  case (Cons a inputs)
  obtain eng line where a: "a = (eng, line)" by (cases a)
  obtain st s' where it: "main_iteration eng line s = (st, s')"
    by (cases "main_iteration eng line s")
  have "isReady s'"
    using main_iteration_isReady [OF Cons.prems, of eng line] it by simp
  then show ?case
    using Cons.IH [of s'] a it by (cases st) simp_all
qed

subsection \<open>Readiness comes from a successful config only\<close>

lemma main_start_not_ready: "\<not> isReady main_start"
  by (simp add: isReady_def main_start_def)

lemma Execute_becomes_ready:
  assumes "\<not> isReady s" and "isReady (snd (Execute eng c s))"
  shows "\<exists>repo connector. c = IpfsConfigCommand repo
           \<and> fst (CreateNode eng repo (loadPluginsOnce s)) = Inr connector"
  using assms
  by (cases c) (auto simp: isReady_def split: prod.splits sum.splits option.splits)

lemma handleIpfsCommand_becomes_ready:
  assumes "\<not> isReady s" and "isReady (outcome_state (handleIpfsCommand eng line s))"
  shows "\<exists>repo rest connector. Fields line = ''config'' # repo # rest
           \<and> fst (CreateNode eng repo (loadPluginsOnce s)) = Inr connector"
proof -
  have nr: "Connector (ipfsConnector s) = None"
    using assms(1) by (simp add: isReady_def)
  obtain verb args where f: "Fields line = verb # args"
    using assms by (cases "Fields line") (auto simp: handleIpfsCommand_def)
  have v: "verb = ''config''"
    using assms f nr
    by (auto simp: handleIpfsCommand_def Let_def isReady_def split: if_splits)
  obtain repo rest where a: "args = repo # rest"
    using assms f v by (cases args) (auto simp: handleIpfsCommand_def Let_def index_def)
  let ?s = "SetCommand (IpfsConfigCommand repo) s"
  have "isReady (snd (Execute eng (IpfsConfigCommand repo) ?s))"
    using assms(2) f v a
    by (simp add: handleIpfsCommand_def Let_def index_def ExecuteCommand_def SetCommand_def)
  moreover have "\<not> isReady ?s"
    using assms(1) by simp
  ultimately have
    "\<exists>connector. fst (CreateNode eng repo (loadPluginsOnce ?s)) = Inr connector"
    using Execute_becomes_ready by blast
  then show ?thesis
    using f v a by (simp add: SetCommand_def)
qed

subsection \<open>A sequence of SetCommand calls\<close>

lemma foldl_SetCommand_frame:
  "\<exists>pending. foldl (\<lambda>s c. SetCommand c s) s cs
     = s\<lparr>invoker := (invoker s)\<lparr>command := pending\<rparr>\<rparr>"
proof (induction cs arbitrary: s)
  case Nil
  show ?case by (rule exI [where x = "command (invoker s)"]) simp
next
  case (Cons a cs)
  obtain pending where
    "foldl (\<lambda>s c. SetCommand c s) (SetCommand a s) cs
       = (SetCommand a s)\<lparr>invoker := (invoker (SetCommand a s))\<lparr>command := pending\<rparr>\<rparr>"
    using Cons.IH [of "SetCommand a s"] by blast
  then have "foldl (\<lambda>s c. SetCommand c s) s (a # cs)
       = s\<lparr>invoker := (invoker s)\<lparr>command := pending\<rparr>\<rparr>"
    by (simp add: SetCommand_def)
  then show ?case by blast
qed

lemma foldl_SetCommand:
  "foldl (\<lambda>s c. SetCommand c s) s (cs @ [c])
     = s\<lparr>invoker := (invoker s)\<lparr>command := Some c\<rparr>\<rparr>"
proof -
  obtain pending where
    "foldl (\<lambda>s c. SetCommand c s) s cs = s\<lparr>invoker := (invoker s)\<lparr>command := pending\<rparr>\<rparr>"
    using foldl_SetCommand_frame by blast
  then show ?thesis by (simp add: SetCommand_def)
qed

subsection \<open>The connector changes by a successful config only\<close>

lemma Fields_config_repo: "Fields ''config /tmp/repo'' = [''config'', ''/tmp/repo'']"
  by (simp add: Fields_def asciiSpace_def)

lemma Execute_connector_changed:
  assumes "ipfsConnector (snd (Execute eng c s)) \<noteq> ipfsConnector s"
  shows "\<exists>repo connector. c = IpfsConfigCommand repo
           \<and> fst (CreateNode eng repo (loadPluginsOnce s)) = Inr connector
           \<and> fst (Execute eng c s) = None
           \<and> Connector (ipfsConnector (snd (Execute eng c s))) = Some connector"
  using assms
  by (cases c) (auto split: prod.splits sum.splits option.splits)

lemma handleIpfsCommand_connector_changed:
  assumes "ipfsConnector (outcome_state (handleIpfsCommand eng line s)) \<noteq> ipfsConnector s"
  shows "\<exists>repo rest connector. Fields line = ''config'' # repo # rest
           \<and> fst (CreateNode eng repo (loadPluginsOnce s)) = Inr connector
           \<and> (\<exists>s'. handleIpfsCommand eng line s = Returned None s')
           \<and> Connector (ipfsConnector (outcome_state (handleIpfsCommand eng line s)))
               = Some connector"
proof -
  obtain verb args where f: "Fields line = verb # args"
    using assms by (cases "Fields line") (auto simp: handleIpfsCommand_def)
  have other: "ipfsConnector (snd (ExecuteCommand eng (SetCommand c s))) = ipfsConnector s"
    if "\<forall>repo. c \<noteq> IpfsConfigCommand repo" for c
    using that Execute_connector_changed [of eng c "SetCommand c s"]
    by (auto simp: ExecuteCommand_def SetCommand_def)
  have v: "verb = ''config''"
  proof (rule ccontr)
    assume "verb \<noteq> ''config''"
    then have "ipfsConnector (outcome_state (handleIpfsCommand eng line s)) = ipfsConnector s"
      using f by (auto simp: handleIpfsCommand_def Let_def other split: sum.splits)
    then show False using assms by simp
  qed
  obtain repo rest where a: "args = repo # rest"
    using assms f v by (cases args) (auto simp: handleIpfsCommand_def Let_def index_def)
  let ?s = "SetCommand (IpfsConfigCommand repo) s"
  have h: "handleIpfsCommand eng line s = returned (Execute eng (IpfsConfigCommand repo) ?s)"
    using f v a
    by (simp add: handleIpfsCommand_def Let_def index_def ExecuteCommand_def SetCommand_def)
  have "ipfsConnector (snd (Execute eng (IpfsConfigCommand repo) ?s)) \<noteq> ipfsConnector ?s"
    using assms h by (simp add: SetCommand_def)
  then have "\<exists>connector. fst (CreateNode eng repo (loadPluginsOnce ?s)) = Inr connector
       \<and> fst (Execute eng (IpfsConfigCommand repo) ?s) = None
       \<and> Connector (ipfsConnector (snd (Execute eng (IpfsConfigCommand repo) ?s)))
           = Some connector"
    using Execute_connector_changed [of eng "IpfsConfigCommand repo" ?s] by blast
  then show ?thesis
    using f v a h by (auto simp: SetCommand_def returned_def)
qed

lemma main_iteration_connector_changed:
  assumes "ipfsConnector (snd (main_iteration eng line s)) \<noteq> ipfsConnector s"
  shows "\<exists>repo rest connector. Fields line = ''config'' # repo # rest
           \<and> fst (CreateNode eng repo (loadPluginsOnce s)) = Inr connector
           \<and> fst (main_iteration eng line s) = Running
           \<and> Connector (ipfsConnector (snd (main_iteration eng line s))) = Some connector
           \<and> stdout (snd (main_iteration eng line s)) = stdout s @ [Print ''goshare> '']"
proof -
  let ?s = "prints [Print ''goshare> ''] s"
  have l: "line \<noteq> ''help''" "line \<noteq> ''exit''"
    using assms by (auto simp: main_iteration_def Let_def)
  have m: "snd (main_iteration eng line s)
      = (case handleIpfsCommand eng line ?s of
           Panicked p s' \<Rightarrow> s' | Returned None s' \<Rightarrow> s'
         | Returned (Some e) s' \<Rightarrow> prints [Red e] s')"
    using l by (simp add: main_iteration_def Let_def split: outcome.splits option.splits)
  have "ipfsConnector (outcome_state (handleIpfsCommand eng line ?s)) \<noteq> ipfsConnector ?s"
    using assms m by (auto split: outcome.splits option.splits)
  then obtain repo rest connector s' where
    c: "Fields line = ''config'' # repo # rest"
      "fst (CreateNode eng repo (loadPluginsOnce ?s)) = Inr connector"
      "handleIpfsCommand eng line ?s = Returned None s'"
      "Connector (ipfsConnector (outcome_state (handleIpfsCommand eng line ?s))) = Some connector"
    using handleIpfsCommand_connector_changed [of eng line ?s] by blast
  have "s' = snd (Execute eng (IpfsConfigCommand repo) (SetCommand (IpfsConfigCommand repo) ?s))"
    using c(1,3)
    by (simp add: handleIpfsCommand_def Let_def index_def ExecuteCommand_def SetCommand_def
        returned_def)
  then have "stdout s' = stdout s @ [Print ''goshare> '']"
    by (auto simp: SetCommand_def split: prod.splits sum.splits)
  then show ?thesis
    using c l by (auto simp: main_iteration_def Let_def)
qed

lemma main_iteration_config_failure:
  assumes "Fields line = ''config'' # repo # rest"
    and "CreateNode eng repo (loadPluginsOnce s) = (Inl e, once)"
  shows "main_iteration eng line s
     = (Running, prints [Print ''goshare> '', Red e]
                  (SetCommand (IpfsConfigCommand repo) (s\<lparr>loadPluginsOnce := once\<rparr>)))"
proof -
  have l: "line \<noteq> ''help''" "line \<noteq> ''exit''"
    using assms(1) by (auto simp: Fields_samples)
  show ?thesis
    using assms l
    by (simp add: main_iteration_def Let_def handleIpfsCommand_def index_def returned_def
        ExecuteCommand_def SetCommand_def prints_def)
qed

lemma main_iteration_config_up:
  "main_iteration engine_up ''config /tmp/repo'' main_start
     = (Running, prints [Print ''goshare> '']
                  (SetCommand (IpfsConfigCommand ''/tmp/repo'') ready_start))"
  by (simp add: main_iteration_def Let_def handleIpfsCommand_def index_def returned_def
      Fields_config_repo ExecuteCommand_def SetCommand_def CreateNode_up prints_def
      main_start_def ready_start_def)

section \<open>The claims\<close>

text \<open>
  C1: a line whose first token is a recognized verb but which has too few argument
  tokens should give a parse error and leave the loop alive. The code indexes the
  tokens without checking their number: \<open>config\<close> alone panics at \<open>ipfsCommand[1]\<close>
  in any state, and so do \<open>add\<close> alone and \<open>get\<close> with one argument once a
  connector is stored; the panic ends the process.
\<close>

theorem short_command_line_panics:
  "handleIpfsCommand eng ''config'' s = Panicked (IndexOutOfRange 1 1) s
   \<and> fst (main_iteration eng ''config'' s) = Crashed (IndexOutOfRange 1 1)
   \<and> fst (main_iteration eng ''add'' (s\<lparr>ipfsConnector := \<lparr>Connector = Some c\<rparr>\<rparr>))
       = Crashed (IndexOutOfRange 1 1)
   \<and> fst (main_iteration eng ''get QmFile'' (s\<lparr>ipfsConnector := \<lparr>Connector = Some c\<rparr>\<rparr>))
       = Crashed (IndexOutOfRange 2 2)"
  by (simp add: main_iteration_def handleIpfsCommand_def Fields_samples index_def)

text \<open>
  C2: an empty or white-space-only line should lead back to the prompt without a
  dispatch and without an index out of range. The loop hands such a line to
  \<open>handleIpfsCommand\<close>, which reads \<open>ipfsCommand[0]\<close> of an empty slice: the
  process ends with a panic, after the prompt has been printed.
\<close>

theorem empty_line_panics:
  "main_iteration eng [] s = (Crashed (IndexOutOfRange 0 0), prints [Print ''goshare> ''] s)
   \<and> main_iteration eng ''   '' s
       = (Crashed (IndexOutOfRange 0 0), prints [Print ''goshare> ''] s)"
  by (simp add: main_iteration_def handleIpfsCommand_no_field Fields_samples)

text \<open>
  C3: a content identifier that fails to decode should be reported to the user as that
  error. \<open>GetFile\<close> discards the error of \<open>cid.Decode\<close>: whatever error the decoder
  reports, the result is the same as without it, and the engine's get-file operation is
  called with the identifier the decoder returned. With the sample engine that decodes
  nothing, the user is shown the error of the get-file operation, not the decoder's.
\<close>

theorem GetFile_drops_decode_error:
  "GetFile (eng\<lparr>cid_Decode := (\<lambda>x. (fst (cid_Decode eng x), e))\<rparr>) c contentId outputPath
     = GetFile eng c contentId outputPath
   \<and> snd (cid_Decode engine_bad_cid ''not-a-cid'') = Some ''invalid cid''
   \<and> GetFile engine_bad_cid c ''not-a-cid'' ''/tmp/out.txt''
       = (Some ''could not resolve path'', [])"
  by (simp add: GetFile_def engine_bad_cid_def engine_up_def split: sum.splits option.splits)

text \<open>
  C4: before any successful config the connector is nil (\<open>main\<close> starts with nil, and
  only a successful config stores one: \<open>handleIpfsCommand_becomes_ready\<close>). In such a
  state every line whose first token is \<open>add\<close> or \<open>get\<close>, whatever follows it, returns
  the error "run config command first" from \<open>handleIpfsCommand\<close> before a command is
  built or set: the state, connector and invoker included, is returned as it was, and
  the loop prints the error in red and goes on. The \<open>Execute\<close> methods of the two
  commands make the same check.
\<close>

theorem add_get_before_config_NotConfigured:
  assumes "Connector (ipfsConnector s) = None"
    and "Fields line = verb # args"
    and "verb = ''add'' \<or> verb = ''get''"
  shows "handleIpfsCommand eng line s = Returned (Some ''run config command first'') s
    \<and> main_iteration eng line s
        = (Running, prints [Print ''goshare> '', Red ''run config command first''] s)
    \<and> Execute eng (IpfsAddCommand filePath) s = (Some ''run config command first'', s)
    \<and> Execute eng (IpfsGetCommand cid outputPath) s = (Some ''run config command first'', s)"
proof -
  have h: "handleIpfsCommand eng line t = Returned (Some ''run config command first'') t"
    if "Connector (ipfsConnector t) = None" for t
    using that assms(2,3) by (auto simp: handleIpfsCommand_def NotConfigured_def)
  have l: "line \<noteq> ''help''" "line \<noteq> ''exit''"
    using assms(2,3) by (auto simp: Fields_samples)
  show ?thesis
    using assms(1) h [of s] h [of "prints [Print ''goshare> ''] s"] l
    by (simp add: main_iteration_def NotConfigured_def prints_def)
qed

theorem add_get_before_config_NotConfigured_witness:
  "handleIpfsCommand engine_up ''add ./file.txt'' main_start
     = Returned (Some ''run config command first'') main_start
   \<and> main_iteration engine_up ''add ./file.txt'' main_start
     = (Running, prints [Print ''goshare> '', Red ''run config command first''] main_start)"
  using add_get_before_config_NotConfigured
    [of main_start "''add ./file.txt''" "''add''" "[''./file.txt'']" engine_up]
  by (simp add: main_start_def Fields_samples)

text \<open>
  C5: when the \<open>Execute\<close> of a config command returns nil, the connector is stored
  (\<open>isReady\<close>), and it is still stored after any further lines the loop reads,
  whatever the engine answers to them: no line, failing or repeated config, add, get,
  unknown verb, help, exit or one that panics, sets the connector back to nil.
\<close>

theorem isReady_after_config_for_good:
  assumes "Execute eng (IpfsConfigCommand repo) s = (None, s')"
  shows "isReady s' \<and> isReady (snd (main_loop inputs s'))"
proof -
  have "isReady s'"
    using assms by (auto simp: isReady_def split: prod.splits sum.splits)
  then show ?thesis
    by (simp add: main_loop_isReady)
qed

theorem isReady_after_config_for_good_witness:
  "isReady ready_start
   \<and> isReady (snd (main_loop [(engine_locked, ''config /tmp/other''),
                               (engine_up, ''status now'')] ready_start))"
  by (rule isReady_after_config_for_good [OF Execute_config_up])

text \<open>
  C6: when the node creation of a config command fails, \<open>Execute\<close> returns that very
  error and leaves the connector, the invoker and the output as they were, and the loop
  prints the error in red and goes on with the connector it had. The session is stored
  only on success: whenever the execution of a command, or a whole iteration of the
  loop, changes the connector, the command is a config command whose node creation
  succeeded, the result is nil and the connector stored is the one created. This is
  the only path that changes the connector. It is not the only one that changes state:
  every dispatched command replaces the pending command of the invoker, and the first
  node creation sets the once-flag of package ipfs, also when the config fails.
\<close>

theorem Configure_failure_and_connector_mutation:
  assumes "Execute eng c s = (r, s')"
  shows "invoker s' = invoker s
    \<and> (\<forall>repo e. c = IpfsConfigCommand repo
           \<and> fst (CreateNode eng repo (loadPluginsOnce s)) = Inl e
         \<longrightarrow> r = Some e \<and> ipfsConnector s' = ipfsConnector s \<and> stdout s' = stdout s)
    \<and> (ipfsConnector s' \<noteq> ipfsConnector s
         \<longrightarrow> r = None
           \<and> (\<exists>repo connector. c = IpfsConfigCommand repo
                 \<and> fst (CreateNode eng repo (loadPluginsOnce s)) = Inr connector
                 \<and> Connector (ipfsConnector s') = Some connector))
    \<and> (\<forall>repo rest e once. Fields line = ''config'' # repo # rest
           \<and> CreateNode eng' repo (loadPluginsOnce t) = (Inl e, once)
         \<longrightarrow> main_iteration eng' line t
             = (Running, prints [Print ''goshare> '', Red e]
                          (SetCommand (IpfsConfigCommand repo) (t\<lparr>loadPluginsOnce := once\<rparr>)))
           \<and> ipfsConnector (snd (main_iteration eng' line t)) = ipfsConnector t)
    \<and> (ipfsConnector (snd (main_iteration eng' line t)) \<noteq> ipfsConnector t
         \<longrightarrow> (\<exists>repo rest connector. Fields line = ''config'' # repo # rest
                 \<and> fst (CreateNode eng' repo (loadPluginsOnce t)) = Inr connector
                 \<and> fst (main_iteration eng' line t) = Running
                 \<and> Connector (ipfsConnector (snd (main_iteration eng' line t)))
                     = Some connector))"
proof -
  have e: "invoker s' = invoker s
    \<and> (\<forall>repo e. c = IpfsConfigCommand repo
           \<and> fst (CreateNode eng repo (loadPluginsOnce s)) = Inl e
         \<longrightarrow> r = Some e \<and> ipfsConnector s' = ipfsConnector s \<and> stdout s' = stdout s)
    \<and> (ipfsConnector s' \<noteq> ipfsConnector s
         \<longrightarrow> r = None
           \<and> (\<exists>repo connector. c = IpfsConfigCommand repo
                 \<and> fst (CreateNode eng repo (loadPluginsOnce s)) = Inr connector
                 \<and> Connector (ipfsConnector s') = Some connector))"
    using assms by (cases c) (auto split: prod.splits sum.splits option.splits)
  have f: "main_iteration eng' line t
             = (Running, prints [Print ''goshare> '', Red e]
                          (SetCommand (IpfsConfigCommand repo) (t\<lparr>loadPluginsOnce := once\<rparr>)))
           \<and> ipfsConnector (snd (main_iteration eng' line t)) = ipfsConnector t"
    if "Fields line = ''config'' # repo # rest"
      and "CreateNode eng' repo (loadPluginsOnce t) = (Inl e, once)" for repo rest e once
    using main_iteration_config_failure [OF that] by (simp add: SetCommand_def)
  have g: "ipfsConnector (snd (main_iteration eng' line t)) \<noteq> ipfsConnector t
         \<longrightarrow> (\<exists>repo rest connector. Fields line = ''config'' # repo # rest
                 \<and> fst (CreateNode eng' repo (loadPluginsOnce t)) = Inr connector
                 \<and> fst (main_iteration eng' line t) = Running
                 \<and> Connector (ipfsConnector (snd (main_iteration eng' line t)))
                     = Some connector)"
    using main_iteration_connector_changed [of eng' line t] by blast
  show ?thesis
    using e f g by blast
qed

theorem Configure_failure_and_connector_mutation_witness:
  "Execute engine_locked (IpfsConfigCommand ''/tmp/repo'') main_start
     = (Some ''lock held'', main_start\<lparr>loadPluginsOnce := True\<rparr>)
   \<and> ipfsConnector (main_start\<lparr>loadPluginsOnce := True\<rparr>) = ipfsConnector main_start
   \<and> main_iteration engine_locked ''config /tmp/repo'' main_start
       = (Running, prints [Print ''goshare> '', Red ''lock held'']
                    (SetCommand (IpfsConfigCommand ''/tmp/repo'')
                      (main_start\<lparr>loadPluginsOnce := True\<rparr>)))
   \<and> ipfsConnector (snd (main_iteration engine_locked ''config /tmp/repo'' main_start))
       = ipfsConnector main_start
   \<and> Execute engine_up (IpfsConfigCommand ''/tmp/repo'') main_start = (None, ready_start)
   \<and> ipfsConnector ready_start \<noteq> ipfsConnector main_start
   \<and> ipfsConnector (snd (main_iteration engine_up ''config /tmp/repo'' main_start))
       \<noteq> ipfsConnector main_start"
proof -
  have x: "Execute engine_locked (IpfsConfigCommand ''/tmp/repo'') main_start
     = (Some ''lock held'', main_start\<lparr>loadPluginsOnce := True\<rparr>)"
    by (simp add: CreateNode_locked)
  have c: "CreateNode engine_locked ''/tmp/repo'' (loadPluginsOnce main_start)
     = (Inl ''lock held'', True)"
    by (rule CreateNode_locked)
  have u: "ipfsConnector (snd (main_iteration engine_up ''config /tmp/repo'' main_start))
       \<noteq> ipfsConnector main_start"
    unfolding main_iteration_config_up
    by (simp add: SetCommand_def main_start_def ready_start_def)
  have r: "ipfsConnector ready_start \<noteq> ipfsConnector main_start"
    by (simp add: main_start_def ready_start_def)
  show ?thesis
    using Configure_failure_and_connector_mutation
        [OF x, of "''config /tmp/repo''" engine_locked main_start]
      Configure_failure_and_connector_mutation
        [OF Execute_config_up, of "''config /tmp/repo''" engine_up main_start]
      Fields_config_repo c x u r Execute_config_up
    by blast
qed

text \<open>
  The same claim with "the only state-mutating path in the core" taken as it stands
  fails: a config line whose node creation fails leaves the invoker with a new pending
  command and the once-flag set.
\<close>

theorem failed_config_mutates_state_counterexample:
  "fst (CreateNode engine_locked ''/tmp/repo'' (loadPluginsOnce main_start)) = Inl ''lock held''
   \<and> invoker (snd (main_iteration engine_locked ''config /tmp/repo'' main_start))
       = \<lparr>command = Some (IpfsConfigCommand ''/tmp/repo'')\<rparr>
   \<and> invoker (snd (main_iteration engine_locked ''config /tmp/repo'' main_start))
       \<noteq> invoker main_start
   \<and> loadPluginsOnce (snd (main_iteration engine_locked ''config /tmp/repo'' main_start))
       \<noteq> loadPluginsOnce main_start"
  by (simp add: main_iteration_config_failure [OF Fields_config_repo CreateNode_locked]
      CreateNode_locked SetCommand_def main_start_def)

text \<open>
  C7: \<open>ExecuteCommand\<close> on an invoker without a command, such as the fresh one of
  \<open>main\<close>, returns the error "command not set" and changes nothing: neither a panic
  nor a nil result.
\<close>

theorem ExecuteCommand_without_command:
  "ExecuteCommand eng (s\<lparr>invoker := \<lparr>command = None\<rparr>\<rparr>)
     = (Some NoCommandSet, s\<lparr>invoker := \<lparr>command = None\<rparr>\<rparr>)
   \<and> ExecuteCommand eng main_start = (Some NoCommandSet, main_start)
   \<and> NoCommandSet = ''command not set''"
  by (simp add: ExecuteCommand_def NoCommandSet_def main_start_def)

text \<open>
  C8: for a line with at least one token, whose first token is none of \<open>config\<close>,
  \<open>add\<close>, \<open>get\<close>, and which is not the line \<open>help\<close> or \<open>exit\<close>, the loop prints
  \<open>invalid command: \<close> followed by the line as it was read and a line end,
  \<open>handleIpfsCommand\<close> returns nil (nothing is printed in red), and the connector and
  the invoker are as before.
\<close>

theorem unrecognized_verb_invalid_command:
  assumes "Fields line = verb # args"
    and "verb \<notin> {''config'', ''add'', ''get''}"
    and "line \<noteq> ''help''" and "line \<noteq> ''exit''"
  shows "main_iteration eng line s
      = (Running, prints [Print ''goshare> '', Print (''invalid command: '' @ line @ newline)] s)
    \<and> handleIpfsCommand eng line s
      = Returned None (prints [Print (''invalid command: '' @ line @ newline)] s)
    \<and> ipfsConnector (snd (main_iteration eng line s)) = ipfsConnector s
    \<and> invoker (snd (main_iteration eng line s)) = invoker s"
  using assms by (simp add: main_iteration_def handleIpfsCommand_def prints_def)

theorem unrecognized_verb_invalid_command_witness:
  "main_iteration engine_up ''status now'' main_start
      = (Running, prints [Print ''goshare> '',
                          Print (''invalid command: status now'' @ newline)] main_start)"
  using unrecognized_verb_invalid_command
    [of "''status now''" "''status''" "[''now'']" engine_up main_start]
  by (simp add: Fields_samples)

text \<open>
  C9: after any sequence of \<open>SetCommand\<close> calls, \<open>ExecuteCommand\<close> executes the
  command of the last call, on the state in which that command is the pending one; the
  commands set before it have no part in the result.
\<close>

theorem last_SetCommand_is_executed:
  "ExecuteCommand eng (foldl (\<lambda>s c. SetCommand c s) s (cs @ [c]))
     = Execute eng c (s\<lparr>invoker := (invoker s)\<lparr>command := Some c\<rparr>\<rparr>)"
  unfolding foldl_SetCommand by (simp add: ExecuteCommand_def)

text \<open>
  C10: when loading the plugins fails at the first \<open>CreateNode\<close> call (the once-flag is
  not yet set), that call returns the error and sets the flag. With the flag set,
  \<open>setupPlugins\<close> returns nil whatever the engine would answer to a load, so the load
  is not tried again, and the flag stays set after every later \<open>CreateNode\<close>.
\<close>

theorem setupPlugins_error_only_once:
  assumes "loadAndInjectPlugins eng [] = Some e"
  shows "CreateNode eng repository False = (Inl e, True)
    \<and> setupPlugins eng' True = (None, True)
    \<and> snd (CreateNode eng' repository' True) = True"
  using assms
  by (simp add: CreateNode_def setupPlugins_def split: option.splits sum.splits)

theorem setupPlugins_error_only_once_witness:
  "CreateNode engine_no_plugins ''/tmp/repo'' False
     = (Inl ''error loading plugins: no plugins'', True)
   \<and> setupPlugins engine_no_plugins True = (None, True)"
  using setupPlugins_error_only_once [OF load_no_plugins, of "''/tmp/repo''" engine_no_plugins]
  by simp

end
